theory Spec2Isabelle
  imports Complex_Main
begin

section \<open>JavaScript values\<close>

text \<open>
  The arguments a caller can hand to the constructor and to the \<open>active\<close> setter are
  arbitrary JavaScript values. Objects carry the class of their prototype chain and their own
  properties; an audio context and an audio node are host objects, identified by a handle.
  Numbers are the finite ones and \<open>NaN\<close> (an infinity is truthy like any other non-zero number).
\<close>

datatype obj_class = PlainObject | ArrayObject | FunctionObject | ClassInstance

datatype jsval =
    JUndefined
  | JNull
  | JBool bool
  | JNum real
  | JNaN
  | JStr string
  | JObject obj_class "(string \<times> jsval) list"
  | JContext nat
  | JNode nat

datatype js_error =
    Error string
  | TypeError string
  | RangeError string
  | InvalidAccessError string
  | InvalidStateError string

text \<open>\<open>!!v\<close> and the condition of \<open>v ? a : b\<close>: the ToBoolean conversion.\<close>

fun truthy :: "jsval \<Rightarrow> bool" where
  "truthy JUndefined = False"
| "truthy JNull = False"
| "truthy (JBool b) = b"
| "truthy (JNum x) = (x \<noteq> 0)"
| "truthy JNaN = False"
| "truthy (JStr s) = (s \<noteq> [])"
| "truthy (JObject c ps) = True"
| "truthy (JContext c) = True"
| "truthy (JNode n) = True"

text \<open>Reading a property: own properties of an object, \<open>undefined\<close> on anything else.\<close>

definition get_property :: "jsval \<Rightarrow> string \<Rightarrow> jsval" where
  "get_property v k =
     (case v of
        JObject c ps \<Rightarrow> (case map_of ps k of Some x \<Rightarrow> x | None \<Rightarrow> JUndefined)
      | _ \<Rightarrow> JUndefined)"

text \<open>
  Modelled from the spec: \<open>isPlainObject\<close> of the package \<open>@ircam/sc-utils\<close> is imported by
  \<open>BypassNode.js\<close> and is not part of the sources; the spec calls what it accepts
  "a plain key-value options record".
\<close>

definition isPlainObject :: "jsval \<Rightarrow> bool" where
  "isPlainObject v = (case v of JObject PlainObject ps \<Rightarrow> True | _ \<Rightarrow> False)"

text \<open>\<open>context instanceof BaseAudioContext\<close>.\<close>

definition instanceof_BaseAudioContext :: "jsval \<Rightarrow> bool" where
  "instanceof_BaseAudioContext v = (case v of JContext c \<Rightarrow> True | _ \<Rightarrow> False)"

section \<open>The host audio engine\<close>

text \<open>
  Modelled from the spec: the host (\<open>isomorphic-web-audio-api\<close>) is imported by
  \<open>BypassNode.js\<close> and is not part of the sources. The spec describes it as a node factory,
  a clock, a connection primitive and a gain stage whose scalar parameter supports
  "time-constant-based scheduled approach to a target value". Everything in this section
  stands for that host. A node handle is its index in \<open>nodes\<close>; \<open>calls\<close> is the
  sequence of host primitives that completed, in the order they were issued.
\<close>

record automation_event =
  ev_target :: real
  ev_startTime :: real
  ev_timeConstant :: real

record audio_param =
  pvalue :: real
  events :: "automation_event list"

record gain_node =
  node_context :: nat
  gain :: audio_param

datatype host_call =
    NewGainNode nat nat real
  | Connect nat nat
  | Disconnect nat "nat option"
  | SetTargetAtTime nat real real real

record host =
  nodes :: "gain_node list"
  edges :: "(nat \<times> nat) list"
  sampleRate :: "nat \<Rightarrow> nat"
  currentFrame :: "nat \<Rightarrow> nat"
  calls :: "host_call list"

text \<open>Modelled from the spec: the node of the host behind a handle, if there is one.\<close>

definition node_at :: "host \<Rightarrow> nat \<Rightarrow> gain_node option" where
  "node_at h n = (if n < length (nodes h) then Some (nodes h ! n) else None)"

text \<open>
  Modelled from the spec: \<open>context.currentTime\<close>, the clock of the host; the frames rendered
  so far over the sample rate.
\<close>

definition currentTime :: "host \<Rightarrow> nat \<Rightarrow> real" where
  "currentTime h c = real (currentFrame h c) / real (sampleRate h c)"

text \<open>
  Modelled from the spec: the host renders \<open>n\<close> more frames of context \<open>c\<close>, which
  advances its clock.
\<close>

definition render :: "nat \<Rightarrow> nat \<Rightarrow> host \<Rightarrow> host" where
  "render c n h = h\<lparr>currentFrame := (currentFrame h)(c := currentFrame h c + n)\<rparr>"

text \<open>
  Modelled from the spec: the node factory of the host, \<open>new GainNode(context, {gain: g})\<close>.
  The gain defaults to 1 (the spec's "unity passthrough stage"). The host rejects a first
  argument that is not a context.
\<close>

definition GainNode_new :: "jsval \<Rightarrow> real option \<Rightarrow> host \<Rightarrow> (js_error + nat) \<times> host" where
  "GainNode_new context g h =
     (case context of
        JContext c \<Rightarrow>
          (let v = (case g of None \<Rightarrow> 1 | Some x \<Rightarrow> x);
               n = length (nodes h)
           in (Inr n,
               h\<lparr>nodes := nodes h @ [\<lparr>node_context = c, gain = \<lparr>pvalue = v, events = []\<rparr>\<rparr>],
                 calls := calls h @ [NewGainNode n c v]\<rparr>))
      | _ \<Rightarrow> (Inl (TypeError ''Failed to construct GainNode: argument 1 is not an instance of BaseAudioContext''), h))"

text \<open>
  Modelled from the spec: the connection primitive of the host,
  \<open>node.connect(destination, ...)\<close>, which returns the destination. Connecting twice is the
  same as connecting once; a destination of another context is refused (the spec's example of
  a failure of the primitive). A gain stage has one input and one output, so the index
  arguments are not modelled.
\<close>

definition AudioNode_connect :: "nat \<Rightarrow> jsval list \<Rightarrow> host \<Rightarrow> (js_error + jsval) \<times> host" where
  "AudioNode_connect src args h =
     (case args of
        [] \<Rightarrow> (Inl (TypeError ''Failed to execute connect: 1 argument required''), h)
      | d # rest \<Rightarrow>
          (case d of
             JNode dst \<Rightarrow>
               (case (node_at h src, node_at h dst) of
                  (Some s, Some t) \<Rightarrow>
                    if node_context s = node_context t
                    then (Inr (JNode dst),
                          h\<lparr>edges := List.insert (src, dst) (edges h),
                            calls := calls h @ [Connect src dst]\<rparr>)
                    else (Inl (InvalidAccessError ''cannot connect nodes of different contexts''), h)
                | _ \<Rightarrow> (Inl (InvalidStateError ''no such node''), h))
           | _ \<Rightarrow> (Inl (TypeError ''Failed to execute connect: argument 1 is not an AudioNode''), h)))"

text \<open>
  Modelled from the spec: the disconnection primitive of the host. \<open>node.disconnect()\<close>
  removes every outgoing connection; \<open>node.disconnect(destination)\<close> removes the connection
  to that destination and fails when there is none.
\<close>

definition AudioNode_disconnect :: "nat \<Rightarrow> jsval list \<Rightarrow> host \<Rightarrow> (js_error + jsval) \<times> host" where
  "AudioNode_disconnect src args h =
     (case args of
        [] \<Rightarrow>
          (Inr JUndefined,
           h\<lparr>edges := filter (\<lambda>e. fst e \<noteq> src) (edges h),
             calls := calls h @ [Disconnect src None]\<rparr>)
      | d # rest \<Rightarrow>
          (case d of
             JNode dst \<Rightarrow>
               if (src, dst) \<in> set (edges h)
               then (Inr JUndefined,
                     h\<lparr>edges := filter (\<lambda>e. e \<noteq> (src, dst)) (edges h),
                       calls := calls h @ [Disconnect src (Some dst)]\<rparr>)
               else (Inl (InvalidAccessError ''the given destination is not connected''), h)
           | _ \<Rightarrow> (Inl (TypeError ''Failed to execute disconnect: argument 1 is not an AudioNode''), h)))"

text \<open>
  Modelled from the spec: the automation timeline of a parameter of the host ("the host's
  automation system is assumed to serialize conflicting automation events on the same
  parameter in scheduling-time order"). It is ordered by start time; an event scheduled at a
  time where there are events already goes after them.
\<close>

fun insert_event :: "automation_event \<Rightarrow> automation_event list \<Rightarrow> automation_event list" where
  "insert_event e [] = [e]"
| "insert_event e (x # xs) =
     (if ev_startTime x \<le> ev_startTime e then x # insert_event e xs else e # x # xs)"

text \<open>
  Modelled from the spec: the scheduling primitive of the host,
  \<open>node.gain.setTargetAtTime(target, startTime, timeConstant)\<close>. A negative start time or
  time constant is a \<open>RangeError\<close>.
\<close>

definition setTargetAtTime :: "nat \<Rightarrow> real \<Rightarrow> real \<Rightarrow> real \<Rightarrow> host \<Rightarrow> (js_error + unit) \<times> host" where
  "setTargetAtTime n target startTime timeConstant h =
     (if startTime < 0 \<or> timeConstant < 0
      then (Inl (RangeError ''setTargetAtTime: negative time''), h)
      else
        (case node_at h n of
           None \<Rightarrow> (Inl (InvalidStateError ''no such node''), h)
         | Some nd \<Rightarrow>
             (let ev = \<lparr>ev_target = target, ev_startTime = startTime, ev_timeConstant = timeConstant\<rparr>;
                  p = gain nd
              in (Inr (),
                  h\<lparr>nodes := (nodes h)[n := nd\<lparr>gain := p\<lparr>events := insert_event ev (events p)\<rparr>\<rparr>],
                    calls := calls h @ [SetTargetAtTime n target startTime timeConstant]\<rparr>))))"

text \<open>
  Modelled from the spec: the value a parameter of the host settles at ("newest scheduled
  event supersedes"): the target of the last event of its timeline, its initial value when
  nothing was scheduled.
\<close>

definition param_target :: "audio_param \<Rightarrow> real" where
  "param_target p = (case events p of [] \<Rightarrow> pvalue p | e # es \<Rightarrow> ev_target (last (e # es)))"


section \<open>BypassNode\<close>

text \<open>
  The private fields of an instance. \<open>self\<close> is the gain stage the instance itself is (the
  class extends \<open>GainNode\<close>): what \<open>super(context)\<close> creates and what other nodes connect to.
  \<open>ctx\<close> is \<open>#context\<close>, \<open>active\<close> is \<open>#active\<close>, \<open>bypass\<close> is \<open>#bypass\<close>,
  \<open>subGraphIn\<close> is \<open>#subGraphIn\<close> and \<open>outputNode\<close> is \<open>#output\<close>.
\<close>

record bypass_node =
  self :: nat
  ctx :: nat
  active :: jsval
  bypass :: nat
  subGraphIn :: nat
  outputNode :: nat

text \<open>\<open>BypassNode.parameters.active.default\<close>\<close>

definition parameters_active_default :: jsval where
  "parameters_active_default = JBool False"

text \<open>
  The binding of the second parameter, \<open>{ active = BypassNode.parameters.active.default } = {}\<close>,
  which happens before the body of the constructor runs: an omitted argument is \<open>{}\<close>,
  \<open>null\<close> cannot be destructured, and the default stands in for an undefined property.
\<close>

definition destructure_active :: "jsval \<Rightarrow> js_error + jsval" where
  "destructure_active arg2 =
     (let opts = (if arg2 = JUndefined then JObject PlainObject [] else arg2)
      in if opts = JNull
         then Inl (TypeError ''Cannot destructure property active of null'')
         else (let a = get_property opts ''active''
               in Inr (if a = JUndefined then parameters_active_default else a)))"

text \<open>
  The constructor. Every step that can throw returns the error together with the host as it
  is at that moment. What \<open>super(context)\<close> does is the business of the host, so it is
  an argument here: \<open>super_new\<close> gives the handle of the gain stage the instance is, or
  the error the host throws. The case distinction on \<open>context\<close> is the test
  \<open>context instanceof BaseAudioContext\<close>, and it comes before the test of \<open>arguments[1]\<close>
  as in the source.
\<close>

definition BypassNode_new_with ::
  "(jsval \<Rightarrow> host \<Rightarrow> (js_error + nat) \<times> host) \<Rightarrow> jsval \<Rightarrow> jsval \<Rightarrow> host \<Rightarrow>
   (js_error + bypass_node) \<times> host" where
  "BypassNode_new_with super_new context arg2 h =
     (case destructure_active arg2 of
        Inl e \<Rightarrow> (Inl e, h)
      | Inr act \<Rightarrow>
     (case super_new context h of
        (Inl e, h1) \<Rightarrow> (Inl e, h1)
      | (Inr slf, h1) \<Rightarrow>
     (case context of
        JContext c \<Rightarrow>
          if arg2 \<noteq> JUndefined \<and> \<not> isPlainObject arg2
          then (Inl (Error ''Failed to construct BypassNode: argument 2 is not an object''), h1)
          else
            (let a = JBool (truthy act) in
     (case GainNode_new (JContext c) (Some (if truthy a then 1 else 0)) h1 of
        (Inl e, h2) \<Rightarrow> (Inl e, h2)
      | (Inr byp, h2) \<Rightarrow>
     (case AudioNode_connect slf [JNode byp] h2 of
        (Inl e, h3) \<Rightarrow> (Inl e, h3)
      | (Inr r3, h3) \<Rightarrow>
     (case GainNode_new (JContext c) (Some (if truthy a then 0 else 1)) h3 of
        (Inl e, h4) \<Rightarrow> (Inl e, h4)
      | (Inr sub, h4) \<Rightarrow>
     (case AudioNode_connect slf [JNode sub] h4 of
        (Inl e, h5) \<Rightarrow> (Inl e, h5)
      | (Inr r5, h5) \<Rightarrow>
     (case GainNode_new (JContext c) None h5 of
        (Inl e, h6) \<Rightarrow> (Inl e, h6)
      | (Inr out, h6) \<Rightarrow>
     (case AudioNode_connect byp [JNode out] h6 of
        (Inl e, h7) \<Rightarrow> (Inl e, h7)
      | (Inr r7, h7) \<Rightarrow>
          (Inr \<lparr>self = slf, ctx = c, active = a, bypass = byp, subGraphIn = sub, outputNode = out\<rparr>,
           h7))))))))
      | _ \<Rightarrow>
          (Inl (Error ''Failed to construct BypassNode: argument 1 is not an instance of BaseAudioContext''),
           h1))))"

text \<open>\<open>new BypassNode(context, options)\<close> on the host modelled above: the class extends \<open>GainNode\<close>.\<close>

definition BypassNode_new :: "jsval \<Rightarrow> jsval \<Rightarrow> host \<Rightarrow> (js_error + bypass_node) \<times> host" where
  "BypassNode_new context arg2 h = BypassNode_new_with (\<lambda>c. GainNode_new c None) context arg2 h"

text \<open>The accessors.\<close>

definition get_context :: "bypass_node \<Rightarrow> jsval" where
  "get_context b = JContext (ctx b)"

definition get_subGraphInput :: "bypass_node \<Rightarrow> jsval" where
  "get_subGraphInput b = JNode (subGraphIn b)"

definition get_subGraphOutput :: "bypass_node \<Rightarrow> jsval" where
  "get_subGraphOutput b = JNode (outputNode b)"

definition get_active :: "bypass_node \<Rightarrow> jsval" where
  "get_active b = active b"

text \<open>
  The setter of \<open>active\<close>: the value is stored as it is, the clock is read once, and the two
  ramps are scheduled one after the other. An error of the first call leaves the second
  one out, as a thrown exception does.
\<close>

definition set_active :: "jsval \<Rightarrow> bypass_node \<Rightarrow> host \<Rightarrow> (js_error + unit) \<times> bypass_node \<times> host" where
  "set_active v b h =
     (let b' = b\<lparr>active := v\<rparr>;
          now = currentTime h (ctx b')
      in (case setTargetAtTime (bypass b') (if truthy (active b') then 1 else 0) now 0.01 h of
            (Inl e, h1) \<Rightarrow> (Inl e, b', h1)
          | (Inr u, h1) \<Rightarrow>
         (case setTargetAtTime (subGraphIn b') (if truthy (active b') then 0 else 1) now 0.01 h1 of
            (Inl e, h2) \<Rightarrow> (Inl e, b', h2)
          | (Inr u', h2) \<Rightarrow> (Inr (), b', h2))))"

text \<open>\<open>connect(...args)\<close> and \<open>disconnect(...args)\<close>; the latter returns nothing.\<close>

definition BypassNode_connect :: "bypass_node \<Rightarrow> jsval list \<Rightarrow> host \<Rightarrow> (js_error + jsval) \<times> host" where
  "BypassNode_connect b args h = AudioNode_connect (outputNode b) args h"

definition BypassNode_disconnect :: "bypass_node \<Rightarrow> jsval list \<Rightarrow> host \<Rightarrow> (js_error + jsval) \<times> host" where
  "BypassNode_disconnect b args h =
     (case AudioNode_disconnect (outputNode b) args h of
        (Inl e, h1) \<Rightarrow> (Inl e, h1)
      | (Inr r, h1) \<Rightarrow> (Inr JUndefined, h1))"

section \<open>An instance in use\<close>

text \<open>
  What happens to an instance after its construction: assignments to \<open>active\<close> and the
  rendering of frames in between.
\<close>

datatype action = SetActive jsval | RenderFrames nat nat

fun perform :: "action \<Rightarrow> bypass_node \<times> host \<Rightarrow> bypass_node \<times> host" where
  "perform (SetActive v) (b, h) = snd (set_active v b h)"
| "perform (RenderFrames c n) (b, h) = (b, render c n h)"

definition run :: "action list \<Rightarrow> bypass_node \<times> host \<Rightarrow> bypass_node \<times> host" where
  "run acts s = fold perform acts s"

text \<open>Shorthands for the statements below.\<close>

definition gnode :: "nat \<Rightarrow> real \<Rightarrow> gain_node" where
  "gnode c v = \<lparr>node_context = c, gain = \<lparr>pvalue = v, events = []\<rparr>\<rparr>"

definition ramp :: "real \<Rightarrow> real \<Rightarrow> automation_event" where
  "ramp target now = \<lparr>ev_target = target, ev_startTime = now, ev_timeConstant = 0.01\<rparr>"

definition schedule :: "automation_event \<Rightarrow> gain_node \<Rightarrow> gain_node" where
  "schedule ev nd = nd\<lparr>gain := (gain nd)\<lparr>events := events (gain nd) @ [ev]\<rparr>\<rparr>"

definition timeline :: "host \<Rightarrow> nat \<Rightarrow> automation_event list" where
  "timeline h n = events (gain (nodes h ! n))"

fun is_Connect :: "host_call \<Rightarrow> bool" where
  "is_Connect (Connect s d) = True"
| "is_Connect c = False"


text \<open>Every connection of the host is between nodes that exist.\<close>

definition host_ok :: "host \<Rightarrow> bool" where
  "host_ok h = list_all (\<lambda>e. fst e < length (nodes h) \<and> snd e < length (nodes h)) (edges h)"

text \<open>
  The invariant of an instance: its four stages exist and are distinct, nothing is scheduled
  on the two switched gains later than the clock of its context, their targets follow
  \<open>active\<close>, and the output stage is as it was created.
\<close>

definition instance_ok :: "bypass_node \<Rightarrow> host \<Rightarrow> bool" where
  "instance_ok b h \<longleftrightarrow>
     self b < length (nodes h) \<and> bypass b < length (nodes h) \<and>
     subGraphIn b < length (nodes h) \<and> outputNode b < length (nodes h) \<and>
     distinct [self b, bypass b, subGraphIn b, outputNode b] \<and>
     (\<forall>e \<in> set (timeline h (bypass b)). ev_startTime e \<le> currentTime h (ctx b)) \<and>
     (\<forall>e \<in> set (timeline h (subGraphIn b)). ev_startTime e \<le> currentTime h (ctx b)) \<and>
     param_target (gain (nodes h ! bypass b)) = (if truthy (active b) then 1 else 0) \<and>
     param_target (gain (nodes h ! subGraphIn b)) = (if truthy (active b) then 0 else 1) \<and>
     gain (nodes h ! outputNode b) = \<lparr>pvalue = 1, events = []\<rparr>"

text \<open>What no action changes.\<close>

definition same_graph :: "bypass_node \<times> host \<Rightarrow> bypass_node \<times> host \<Rightarrow> bool" where
  "same_graph s s' \<longleftrightarrow>
     self (fst s') = self (fst s) \<and> ctx (fst s') = ctx (fst s) \<and> bypass (fst s') = bypass (fst s) \<and>
     subGraphIn (fst s') = subGraphIn (fst s) \<and> outputNode (fst s') = outputNode (fst s) \<and>
     edges (snd s') = edges (snd s) \<and> length (nodes (snd s')) = length (nodes (snd s)) \<and>
     map node_context (nodes (snd s')) = map node_context (nodes (snd s)) \<and>
     sampleRate (snd s') = sampleRate (snd s)"

section \<open>Concrete runs\<close>

text \<open>
  A host with nothing in it, at 48 kHz as in \<open>tests/BypassNode.spec.js\<close>, and the instance
  and host that \<open>new BypassNode(audioContext)\<close> gives there.
\<close>

definition host0 :: host where
  "host0 = \<lparr>nodes = [], edges = [], sampleRate = (\<lambda>c. 48000), currentFrame = (\<lambda>c. 0), calls = []\<rparr>"

definition demo_node :: bypass_node where
  "demo_node = \<lparr>self = 0, ctx = 0, active = JBool False, bypass = 1, subGraphIn = 2, outputNode = 3\<rparr>"

definition demo_host :: host where
  "demo_host = \<lparr>nodes = [gnode 0 1, gnode 0 0, gnode 0 1, gnode 0 1],
     edges = [(1, 3), (0, 2), (0, 1)],
     sampleRate = (\<lambda>c. 48000), currentFrame = (\<lambda>c. 0),
     calls = [NewGainNode 0 0 1, NewGainNode 1 0 0, Connect 0 1, NewGainNode 2 0 1, Connect 0 2,
              NewGainNode 3 0 1, Connect 1 3]\<rparr>"


section \<open>Facts about the host and the constructor\<close>

lemma GainNode_new_ctx:
  "GainNode_new (JContext c) g h =
     (Inr (length (nodes h)),
      h\<lparr>nodes := nodes h @ [gnode c (case g of None \<Rightarrow> 1 | Some x \<Rightarrow> x)],
        calls := calls h @ [NewGainNode (length (nodes h)) c (case g of None \<Rightarrow> 1 | Some x \<Rightarrow> x)]\<rparr>)"
  by (simp add: GainNode_new_def gnode_def Let_def)

lemma connect_same_ctx:
  "src < length (nodes h) \<Longrightarrow> dst < length (nodes h) \<Longrightarrow>
   node_context (nodes h ! src) = node_context (nodes h ! dst) \<Longrightarrow>
   AudioNode_connect src [JNode dst] h =
     (Inr (JNode dst), h\<lparr>edges := List.insert (src, dst) (edges h), calls := calls h @ [Connect src dst]\<rparr>)"
  by (simp add: AudioNode_connect_def node_at_def)

lemma BypassNode_new_ok:
  assumes "arg2 = JUndefined \<or> isPlainObject arg2" and "destructure_active arg2 = Inr act"
  shows "BypassNode_new (JContext c) arg2 h =
     (Inr \<lparr>self = length (nodes h), ctx = c, active = JBool (truthy act),
           bypass = length (nodes h) + 1, subGraphIn = length (nodes h) + 2,
           outputNode = length (nodes h) + 3\<rparr>,
      h\<lparr>nodes := nodes h @ [gnode c 1, gnode c (if truthy act then 1 else 0),
                             gnode c (if truthy act then 0 else 1), gnode c 1],
        edges := List.insert (length (nodes h) + 1, length (nodes h) + 3)
                   (List.insert (length (nodes h), length (nodes h) + 2)
                      (List.insert (length (nodes h), length (nodes h) + 1) (edges h))),
        calls := calls h @
          [NewGainNode (length (nodes h)) c 1,
           NewGainNode (length (nodes h) + 1) c (if truthy act then 1 else 0),
           Connect (length (nodes h)) (length (nodes h) + 1),
           NewGainNode (length (nodes h) + 2) c (if truthy act then 0 else 1),
           Connect (length (nodes h)) (length (nodes h) + 2),
           NewGainNode (length (nodes h) + 3) c 1,
           Connect (length (nodes h) + 1) (length (nodes h) + 3)]\<rparr>)"
  using assms
  by (auto simp add: BypassNode_new_def BypassNode_new_with_def GainNode_new_ctx connect_same_ctx nth_append gnode_def Let_def eval_nat_numeral)

lemma insert_event_last:
  "\<forall>x \<in> set xs. ev_startTime x \<le> ev_startTime e \<Longrightarrow> insert_event e xs = xs @ [e]"
  by (induction xs) auto

lemma currentTime_nonneg: "0 \<le> currentTime h c"
  by (simp add: currentTime_def)

lemma setTargetAtTime_late:
  assumes "n < length (nodes h)" and "0 \<le> t" and "0 \<le> tc"
    and "\<forall>x \<in> set (timeline h n). ev_startTime x \<le> t"
  shows "setTargetAtTime n v t tc h =
     (Inr (), h\<lparr>nodes := (nodes h)[n := schedule \<lparr>ev_target = v, ev_startTime = t, ev_timeConstant = tc\<rparr> (nodes h ! n)],
               calls := calls h @ [SetTargetAtTime n v t tc]\<rparr>)"
  using assms
  by (simp add: setTargetAtTime_def node_at_def Let_def schedule_def timeline_def
      insert_event_last)

lemma set_active_explicit:
  assumes "instance_ok b h"
  shows "set_active v b h =
     (Inr (), b\<lparr>active := v\<rparr>,
      h\<lparr>nodes := (nodes h)
           [bypass b := schedule (ramp (if truthy v then 1 else 0) (currentTime h (ctx b))) (nodes h ! bypass b),
            subGraphIn b := schedule (ramp (if truthy v then 0 else 1) (currentTime h (ctx b))) (nodes h ! subGraphIn b)],
        calls := calls h @
          [SetTargetAtTime (bypass b) (if truthy v then 1 else 0) (currentTime h (ctx b)) 0.01,
           SetTargetAtTime (subGraphIn b) (if truthy v then 0 else 1) (currentTime h (ctx b)) 0.01]\<rparr>)"
proof -
  let ?b = "b\<lparr>active := v\<rparr>"
  let ?t = "currentTime h (ctx ?b)"
  let ?x = "if truthy (active ?b) then 1 else 0 :: real"
  let ?y = "if truthy (active ?b) then 0 else 1 :: real"
  let ?h1 = "h\<lparr>nodes := (nodes h)[bypass ?b := schedule \<lparr>ev_target = ?x, ev_startTime = ?t, ev_timeConstant = 0.01\<rparr> (nodes h ! bypass ?b)],
               calls := calls h @ [SetTargetAtTime (bypass ?b) ?x ?t 0.01]\<rparr>"
  let ?h2 = "?h1\<lparr>nodes := (nodes ?h1)[subGraphIn ?b := schedule \<lparr>ev_target = ?y, ev_startTime = ?t, ev_timeConstant = 0.01\<rparr> (nodes ?h1 ! subGraphIn ?b)],
               calls := calls ?h1 @ [SetTargetAtTime (subGraphIn ?b) ?y ?t 0.01]\<rparr>"
  from assms have ne: "subGraphIn b \<noteq> bypass b" and lb: "bypass ?b < length (nodes h)"
    and ls: "subGraphIn ?b < length (nodes ?h1)"
    and tb: "\<forall>x \<in> set (timeline h (bypass ?b)). ev_startTime x \<le> ?t"
    and ts: "\<forall>x \<in> set (timeline ?h1 (subGraphIn ?b)). ev_startTime x \<le> ?t"
    by (auto simp: instance_ok_def timeline_def)
  have tc: "(0::real) \<le> 0.01" by simp
  have first: "setTargetAtTime (bypass ?b) ?x ?t 0.01 h = (Inr (), ?h1)"
    by (rule setTargetAtTime_late[OF lb currentTime_nonneg tc tb])
  have second: "setTargetAtTime (subGraphIn ?b) ?y ?t 0.01 ?h1 = (Inr (), ?h2)"
    by (rule setTargetAtTime_late[OF ls currentTime_nonneg tc ts])
  have "set_active v b h = (Inr (), ?b, ?h2)"
    unfolding set_active_def Let_def by (simp only: first second prod.case sum.case)
  also have "?h2 = h\<lparr>nodes := (nodes h)
           [bypass b := schedule (ramp (if truthy v then 1 else 0) (currentTime h (ctx b))) (nodes h ! bypass b),
            subGraphIn b := schedule (ramp (if truthy v then 0 else 1) (currentTime h (ctx b))) (nodes h ! subGraphIn b)],
        calls := calls h @
          [SetTargetAtTime (bypass b) (if truthy v then 1 else 0) (currentTime h (ctx b)) 0.01,
           SetTargetAtTime (subGraphIn b) (if truthy v then 0 else 1) (currentTime h (ctx b)) 0.01]\<rparr>"
    using ne by (simp add: ramp_def)
  finally show ?thesis .
qed

lemma destructure_active_null: "destructure_active JNull = Inl (TypeError ''Cannot destructure property active of null'')"
  by (simp add: destructure_active_def)

lemma destructure_active_not_null:
  "a2 \<noteq> JNull \<Longrightarrow> \<exists>act. destructure_active a2 = Inr act"
  by (simp add: destructure_active_def Let_def)

lemma BypassNode_new_with_not_context:
  assumes "\<not> instanceof_BaseAudioContext context"
  shows "\<exists>e h'. BypassNode_new_with super_new context a2 h = (Inl e, h')"
  using assms
  by (cases "context")
    (auto simp: BypassNode_new_with_def instanceof_BaseAudioContext_def split: sum.splits prod.splits)

lemma BypassNode_new_null:
  "BypassNode_new context JNull h = (Inl (TypeError ''Cannot destructure property active of null''), h)"
  by (simp add: BypassNode_new_def BypassNode_new_with_def destructure_active_null)

lemma BypassNode_new_not_context:
  assumes "\<not> instanceof_BaseAudioContext context" and "a2 \<noteq> JNull"
  shows "BypassNode_new context a2 h =
    (Inl (TypeError ''Failed to construct GainNode: argument 1 is not an instance of BaseAudioContext''), h)"
proof -
  obtain act where "destructure_active a2 = Inr act"
    using destructure_active_not_null[OF assms(2)] by blast
  then show ?thesis using assms(1)
    by (cases "context") (simp_all add: BypassNode_new_def BypassNode_new_with_def GainNode_new_def instanceof_BaseAudioContext_def)
qed

lemma BypassNode_new_not_object:
  assumes "a2 \<noteq> JUndefined" and "\<not> isPlainObject a2" and "a2 \<noteq> JNull"
  shows "BypassNode_new (JContext c) a2 h =
    (Inl (Error ''Failed to construct BypassNode: argument 2 is not an object''),
     h\<lparr>nodes := nodes h @ [gnode c 1], calls := calls h @ [NewGainNode (length (nodes h)) c 1]\<rparr>)"
proof -
  obtain act where "destructure_active a2 = Inr act"
    using destructure_active_not_null[OF assms(3)] by blast
  then show ?thesis using assms(1,2)
    by (simp add: BypassNode_new_def BypassNode_new_with_def GainNode_new_ctx)
qed

lemma BypassNode_new_Inr:
  assumes "BypassNode_new context a2 h = (Inr b, h')"
  obtains c act where "context = JContext c" and "a2 = JUndefined \<or> isPlainObject a2"
    and "destructure_active a2 = Inr act"
proof -
  have n: "a2 \<noteq> JNull" using assms by (auto simp: BypassNode_new_null)
  then obtain act where act: "destructure_active a2 = Inr act"
    using destructure_active_not_null by blast
  have "instanceof_BaseAudioContext context"
    using assms BypassNode_new_not_context[OF _ n, of "context" h] by auto
  then obtain c where c: "context = JContext c"
    by (cases "context") (auto simp: instanceof_BaseAudioContext_def)
  have "a2 = JUndefined \<or> isPlainObject a2"
    using assms BypassNode_new_not_object[OF _ _ n, of c h] c by auto
  with c act show ?thesis using that by blast
qed

lemma param_target_schedule: "param_target (gain (schedule e nd)) = ev_target e"
  by (cases "events (gain nd)") (simp_all add: param_target_def schedule_def)

lemma BypassNode_new_instance_ok:
  assumes "BypassNode_new context a2 h0 = (Inr b, h)"
  shows "instance_ok b h"
proof -
  from assms obtain c act where c: "context = JContext c" and p: "a2 = JUndefined \<or> isPlainObject a2"
    and act: "destructure_active a2 = Inr act"
    by (rule BypassNode_new_Inr)
  from assms show ?thesis
    unfolding c BypassNode_new_ok[OF p act]
    by (auto simp: instance_ok_def timeline_def nth_append gnode_def param_target_def)
qed

lemma currentTime_render: "currentTime h c \<le> currentTime (render c' n h) c"
  by (simp add: currentTime_def render_def divide_right_mono)

lemma perform_instance_ok:
  assumes "instance_ok b h" and "perform a (b, h) = (b', h')"
  shows "instance_ok b' h'"
proof (cases a)
  case (SetActive v)
  from assms(1) have d: "bypass b \<noteq> subGraphIn b" "outputNode b \<noteq> bypass b" "outputNode b \<noteq> subGraphIn b"
    and l: "bypass b < length (nodes h)" "subGraphIn b < length (nodes h)"
    by (auto simp: instance_ok_def)
  have e: "set_active v b h = (Inr (), b', h')"
    using assms(2) SetActive by (simp add: set_active_explicit[OF assms(1)])
  have b': "b' = b\<lparr>active := v\<rparr>" and h': "h' = h\<lparr>nodes := (nodes h)
           [bypass b := schedule (ramp (if truthy v then 1 else 0) (currentTime h (ctx b))) (nodes h ! bypass b),
            subGraphIn b := schedule (ramp (if truthy v then 0 else 1) (currentTime h (ctx b))) (nodes h ! subGraphIn b)],
        calls := calls h @
          [SetTargetAtTime (bypass b) (if truthy v then 1 else 0) (currentTime h (ctx b)) 0.01,
           SetTargetAtTime (subGraphIn b) (if truthy v then 0 else 1) (currentTime h (ctx b)) 0.01]\<rparr>"
    using e unfolding set_active_explicit[OF assms(1)] by simp_all
  have ct: "currentTime h' (ctx b) = currentTime h (ctx b)"
    by (simp add: h' currentTime_def)
  have t1: "timeline h' (bypass b) = timeline h (bypass b) @ [ramp (if truthy v then 1 else 0) (currentTime h (ctx b))]"
    using d l by (simp add: h' timeline_def schedule_def)
  have t2: "timeline h' (subGraphIn b) = timeline h (subGraphIn b) @ [ramp (if truthy v then 0 else 1) (currentTime h (ctx b))]"
    using d l by (simp add: h' timeline_def schedule_def)
  have p1: "param_target (gain (nodes h' ! bypass b)) = (if truthy v then 1 else 0)"
    using d l by (simp add: h' param_target_schedule ramp_def)
  have p2: "param_target (gain (nodes h' ! subGraphIn b)) = (if truthy v then 0 else 1)"
    using d l by (simp add: h' param_target_schedule ramp_def)
  have o: "nodes h' ! outputNode b = nodes h ! outputNode b"
    using d by (simp add: h')
  have len: "length (nodes h') = length (nodes h)" by (simp add: h')
  from assms(1) have "instance_ok (b\<lparr>active := v\<rparr>) h'"
    by (simp add: instance_ok_def ct t1 t2 p1 p2 o len ramp_def)
  then show ?thesis by (simp add: b')
next
  case (RenderFrames c n)
  then have "b' = b" "h' = render c n h" using assms(2) by auto
  moreover have "nodes (render c n h) = nodes h" by (simp add: render_def)
  ultimately show ?thesis
    using assms(1) currentTime_render[of h "ctx b" c n]
    by (fastforce simp: instance_ok_def timeline_def)
qed


lemma node_context_schedule: "node_context (schedule e nd) = node_context nd"
  by (simp add: schedule_def)

lemma map_node_context_update:
  "n < length xs \<Longrightarrow> node_context x = node_context (xs ! n) \<Longrightarrow>
   map node_context (xs[n := x]) = map node_context xs"
  by (simp add: map_update list_update_same_conv)

lemma perform_same_graph:
  assumes "instance_ok b h"
  shows "same_graph (b, h) (perform a (b, h))"
proof (cases a)
  case (SetActive v)
  from assms have l: "bypass b < length (nodes h)" "subGraphIn b < length (nodes h)"
    and d: "bypass b \<noteq> subGraphIn b"
    by (auto simp: instance_ok_def)
  show ?thesis using l d
    by (simp add: SetActive set_active_explicit[OF assms] same_graph_def
        map_node_context_update node_context_schedule)
next
  case (RenderFrames c n)
  then show ?thesis by (simp add: same_graph_def render_def)
qed

lemma run_same_graph:
  "instance_ok b h \<Longrightarrow> same_graph (b, h) (run acts (b, h))"
proof (induction acts arbitrary: b h)
  case Nil
  then show ?case by (simp add: run_def same_graph_def)
next
  case (Cons a acts)
  obtain b1 h1 where s: "perform a (b, h) = (b1, h1)" by (cases "perform a (b, h)")
  have ok: "instance_ok b1 h1" by (rule perform_instance_ok[OF Cons.prems s])
  have "same_graph (b, h) (b1, h1)" using perform_same_graph[OF Cons.prems, of a] s by simp
  moreover have "same_graph (b1, h1) (run acts (b1, h1))" by (rule Cons.IH[OF ok])
  moreover have "run (a # acts) (b, h) = run acts (b1, h1)" using s by (simp add: run_def)
  ultimately show ?case by (simp add: same_graph_def)
qed

lemma demo_constructed: "BypassNode_new (JContext 0) JUndefined host0 = (Inr demo_node, demo_host)"
proof -
  have "destructure_active JUndefined = Inr (JBool False)"
    by (simp add: destructure_active_def get_property_def parameters_active_default_def)
  then show ?thesis
    by (simp add: BypassNode_new_ok host0_def demo_node_def demo_host_def List.insert_def)
qed


lemma set_active_stores_value: "get_active (fst (snd (set_active v b h))) = v"
  by (simp add: set_active_def get_active_def Let_def split: prod.splits sum.splits)

section \<open>The claims\<close>





text \<open>
  Claim C3. The claim has the setter store the boolean coercion of the assigned value and the
  getter return that boolean. The setter stores the value as it is (lemma
  \<open>set_active_stores_value\<close>): on a fresh instance, \<open>active = 1\<close> returns normally and the
  getter then returns the number 1, which is not \<open>true\<close>; the constructor, given
  \<open>{active: 1}\<close>, stores \<open>true\<close>.
\<close>

theorem set_active_keeps_raw_value:
  "BypassNode_new (JContext 0) JUndefined host0 = (Inr demo_node, demo_host) \<and>
   fst (set_active (JNum 1) demo_node demo_host) = Inr () \<and>
   get_active (fst (snd (set_active (JNum 1) demo_node demo_host))) = JNum 1 \<and>
   get_active (fst (snd (set_active (JNum 1) demo_node demo_host))) \<noteq> JBool (truthy (JNum 1)) \<and>
   fst (BypassNode_new (JContext 0) (JObject PlainObject [(''active'', JNum 1)]) host0) =
     Inr (demo_node\<lparr>active := JBool True\<rparr>)"
proof -
  have d: "destructure_active (JObject PlainObject [(''active'', JNum 1)]) = Inr (JNum 1)"
    by (simp add: destructure_active_def get_property_def)
  have p: "JObject PlainObject [(''active'', JNum 1)] = JUndefined \<or>
           isPlainObject (JObject PlainObject [(''active'', JNum 1)])"
    by (simp add: isPlainObject_def)
  have ok: "instance_ok demo_node demo_host"
    by (rule BypassNode_new_instance_ok[OF demo_constructed])
  have s: "fst (set_active (JNum 1) demo_node demo_host) = Inr ()"
    "get_active (fst (snd (set_active (JNum 1) demo_node demo_host))) = JNum 1"
    by (simp_all add: set_active_explicit[OF ok] get_active_def)
  have c: "fst (BypassNode_new (JContext 0) (JObject PlainObject [(''active'', JNum 1)]) host0) =
     Inr (demo_node\<lparr>active := JBool True\<rparr>)"
    by (simp add: BypassNode_new_ok[OF p d] host0_def demo_node_def)
  from demo_constructed s c show ?thesis by simp
qed

text \<open>
  Claim C4. In a host whose connections are between existing nodes, the constructor adds
  exactly three connections, in this order: the instance's own input stage to the bypass
  gain, the input stage to the sub-graph-input gain, and the bypass gain to the output gain.
  The sub-graph-input gain is not connected to the output gain. The four stages are distinct,
  \<open>subGraphInput\<close> is the sub-graph-input gain and \<open>subGraphOutput\<close> is the output gain.
\<close>

theorem constructor_wiring:
  assumes "BypassNode_new context a2 h0 = (Inr b, h)" and "host_ok h0"
  shows "set (edges h) = set (edges h0) \<union>
           {(self b, bypass b), (self b, subGraphIn b), (bypass b, outputNode b)} \<and>
         (subGraphIn b, outputNode b) \<notin> set (edges h) \<and>
         filter is_Connect (drop (length (calls h0)) (calls h)) =
           [Connect (self b) (bypass b), Connect (self b) (subGraphIn b),
            Connect (bypass b) (outputNode b)] \<and>
         distinct [self b, bypass b, subGraphIn b, outputNode b] \<and>
         get_subGraphInput b = JNode (subGraphIn b) \<and>
         get_subGraphOutput b = JNode (outputNode b)"
proof -
  from assms(1) obtain c act where c: "context = JContext c" and p: "a2 = JUndefined \<or> isPlainObject a2"
    and act: "destructure_active a2 = Inr act"
    by (rule BypassNode_new_Inr)
  have fresh: "(length (nodes h0) + 2, length (nodes h0) + 3) \<notin> set (edges h0)"
    using assms(2) by (auto simp: host_ok_def list_all_iff)
  from assms(1) fresh show ?thesis
    unfolding c BypassNode_new_ok[OF p act]
    by (auto simp: get_subGraphInput_def get_subGraphOutput_def)
qed

text \<open>The instance built in an empty host.\<close>

theorem constructor_wiring_witness:
  "host_ok host0 \<and>
   BypassNode_new (JContext 0) JUndefined host0 = (Inr demo_node, demo_host) \<and>
   set (edges demo_host) = {(0, 1), (0, 2), (1, 3)} \<and>
   (2, 3) \<notin> set (edges demo_host)"
proof -
  have k: "host_ok host0" by (simp add: host_ok_def host0_def)
  from constructor_wiring[OF demo_constructed k] demo_constructed k
  show ?thesis by (simp add: demo_node_def host0_def)
qed

text \<open>
  Claim C5. When the first argument is not an audio context, the constructor throws, whatever
  the second argument is: whatever \<open>super(context)\<close> does with such an argument, the
  constructor ends in an error, and on the host modelled here, which rejects it, the host is
  left as it was.
\<close>

theorem constructor_rejects_non_context:
  assumes "\<not> instanceof_BaseAudioContext context"
  shows "(\<exists>e h'. BypassNode_new_with super_new context a2 h = (Inl e, h')) \<and>
         (\<exists>e. BypassNode_new context a2 h = (Inl e, h))"
proof -
  have "\<exists>e. BypassNode_new context a2 h = (Inl e, h)"
  proof (cases "a2 = JNull")
    case True
    then show ?thesis by (simp add: BypassNode_new_null)
  next
    case False
    then show ?thesis by (simp add: BypassNode_new_not_context[OF assms])
  qed
  with BypassNode_new_with_not_context[OF assms] show ?thesis by blast
qed

text \<open>The five arguments of the test "should throw if argument 1 is not an AudioContext".\<close>

theorem constructor_rejects_non_context_witness:
  "\<not> instanceof_BaseAudioContext (JObject PlainObject []) \<and>
   \<not> instanceof_BaseAudioContext JNull \<and>
   \<not> instanceof_BaseAudioContext (JStr ''string'') \<and>
   \<not> instanceof_BaseAudioContext (JNum 1) \<and>
   \<not> instanceof_BaseAudioContext JNaN \<and>
   (\<exists>e. BypassNode_new (JObject PlainObject []) JUndefined host0 = (Inl e, host0)) \<and>
   (\<exists>e. BypassNode_new JNull JUndefined host0 = (Inl e, host0)) \<and>
   (\<exists>e. BypassNode_new (JStr ''string'') JUndefined host0 = (Inl e, host0)) \<and>
   (\<exists>e. BypassNode_new (JNum 1) JUndefined host0 = (Inl e, host0)) \<and>
   (\<exists>e. BypassNode_new JNaN JUndefined host0 = (Inl e, host0)) \<and>
   BypassNode_new_with (\<lambda>c h. (Inr (length (nodes h)), h)) (JNum 1) JUndefined host0 =
     (Inl (Error ''Failed to construct BypassNode: argument 1 is not an instance of BaseAudioContext''),
      host0)"
proof -
  have "BypassNode_new_with (\<lambda>c h. (Inr (length (nodes h)), h)) (JNum 1) JUndefined host0 =
     (Inl (Error ''Failed to construct BypassNode: argument 1 is not an instance of BaseAudioContext''),
      host0)"
    by (simp add: BypassNode_new_with_def destructure_active_def get_property_def
        parameters_active_default_def)
  with constructor_rejects_non_context[of "JObject PlainObject []" _ JUndefined host0]
    constructor_rejects_non_context[of JNull _ JUndefined host0]
    constructor_rejects_non_context[of "JStr ''string''" _ JUndefined host0]
    constructor_rejects_non_context[of "JNum 1" _ JUndefined host0]
    constructor_rejects_non_context[of JNaN _ JUndefined host0]
  show ?thesis
    by (simp add: instanceof_BaseAudioContext_def)
qed

text \<open>
  Claim C6. With an audio context as first argument, a second argument that is given and is
  not a plain object makes the constructor throw: \<open>null\<close> fails when the parameter is
  destructured, anything else at the check of \<open>arguments[1]\<close>. With the second argument
  omitted the constructor succeeds, and \<open>active\<close> is \<open>false\<close>.
\<close>

theorem constructor_checks_options:
  "(a2 \<noteq> JUndefined \<and> \<not> isPlainObject a2 \<longrightarrow>
      fst (BypassNode_new (JContext c) a2 h) =
        Inl (if a2 = JNull then TypeError ''Cannot destructure property active of null''
             else Error ''Failed to construct BypassNode: argument 2 is not an object'')) \<and>
   (\<exists>b h'. BypassNode_new (JContext c) JUndefined h = (Inr b, h') \<and> get_active b = JBool False)"
proof -
  have "destructure_active JUndefined = Inr (JBool False)"
    by (simp add: destructure_active_def get_property_def parameters_active_default_def)
  then have "\<exists>b h'. BypassNode_new (JContext c) JUndefined h = (Inr b, h') \<and> get_active b = JBool False"
    by (simp add: BypassNode_new_ok get_active_def)
  then show ?thesis
    by (auto simp: BypassNode_new_null BypassNode_new_not_object)
qed

text \<open>The four arguments of the test "should throw if argument 2 is not an Object".\<close>

theorem constructor_checks_options_witness:
  "JStr ''string'' \<noteq> JUndefined \<and> \<not> isPlainObject (JStr ''string'') \<and>
   fst (BypassNode_new (JContext 0) (JStr ''string'') host0) =
     Inl (Error ''Failed to construct BypassNode: argument 2 is not an object'') \<and>
   fst (BypassNode_new (JContext 0) (JNum 1) host0) =
     Inl (Error ''Failed to construct BypassNode: argument 2 is not an object'') \<and>
   fst (BypassNode_new (JContext 0) JNaN host0) =
     Inl (Error ''Failed to construct BypassNode: argument 2 is not an object'') \<and>
   fst (BypassNode_new (JContext 0) JNull host0) =
     Inl (TypeError ''Cannot destructure property active of null'')"
  using constructor_checks_options[of "JStr ''string''" 0 host0]
    constructor_checks_options[of "JNum 1" 0 host0]
    constructor_checks_options[of JNaN 0 host0]
    constructor_checks_options[of JNull 0 host0]
  by (simp add: isPlainObject_def)

text \<open>
  Claim C7. For all arguments, the constructor either succeeds, with four new nodes (its own
  input stage and the three gain stages), all distinct, and the three internal connections
  made, or it throws with the connections of the host unchanged and no \<open>connect\<close> call
  issued.
\<close>

theorem constructor_atomic:
  "(\<exists>b h'. BypassNode_new context a2 h = (Inr b, h') \<and>
        length (nodes h') = length (nodes h) + 4 \<and>
        distinct [self b, bypass b, subGraphIn b, outputNode b] \<and>
        list_all (\<lambda>n. length (nodes h) \<le> n \<and> n < length (nodes h')) [self b, bypass b, subGraphIn b, outputNode b] \<and>
        list_all (\<lambda>e. e \<in> set (edges h'))
          [(self b, bypass b), (self b, subGraphIn b), (bypass b, outputNode b)]) \<or>
   (\<exists>e h'. BypassNode_new context a2 h = (Inl e, h') \<and> edges h' = edges h \<and>
        filter is_Connect (calls h') = filter is_Connect (calls h))"
proof (cases "a2 = JNull")
  case True
  then show ?thesis by (simp add: BypassNode_new_null)
next
  case n: False
  show ?thesis
  proof (cases "instanceof_BaseAudioContext context")
    case False
    then show ?thesis by (simp add: BypassNode_new_not_context[OF False n])
  next
    case True
    then obtain c where c: "context = JContext c"
      by (cases "context") (auto simp: instanceof_BaseAudioContext_def)
    show ?thesis
    proof (cases "a2 = JUndefined \<or> isPlainObject a2")
      case False
      then show ?thesis using n by (simp add: c BypassNode_new_not_object)
    next
      case p: True
      obtain act where act: "destructure_active a2 = Inr act"
        using destructure_active_not_null[OF n] by blast
      show ?thesis
        unfolding c BypassNode_new_ok[OF p act] by simp
    qed
  qed
qed

text \<open>Both outcomes: no second argument, and the number 1 as second argument.\<close>

theorem constructor_atomic_witness:
  "BypassNode_new (JContext 0) JUndefined host0 = (Inr demo_node, demo_host) \<and>
   length (nodes demo_host) = length (nodes host0) + 4 \<and>
   (\<exists>e h'. BypassNode_new (JContext 0) (JNum 1) host0 = (Inl e, h') \<and> edges h' = edges host0 \<and>
        filter is_Connect (calls h') = filter is_Connect (calls host0))"
proof -
  have "isPlainObject (JNum 1) = False" "JNum 1 \<noteq> JUndefined" "JNum 1 \<noteq> JNull"
    by (simp_all add: isPlainObject_def)
  then have f: "\<And>b h'. BypassNode_new (JContext 0) (JNum 1) host0 \<noteq> (Inr b, h')"
    by (simp add: BypassNode_new_not_object)
  from constructor_atomic[of "JContext 0" JUndefined host0] constructor_atomic[of "JContext 0" "JNum 1" host0] f
  show ?thesis
    by (simp add: demo_constructed)
qed



text \<open>
  Claim C10. For all arguments and every host, \<open>connect\<close> on an instance is \<open>connect\<close>
  on its output stage, with the same result, the same error and the same effect on the host,
  and \<open>disconnect\<close> is \<open>disconnect\<close> on its output stage.
\<close>

theorem connect_delegates_to_output:
  "BypassNode_connect b args h = AudioNode_connect (outputNode b) args h \<and>
   BypassNode_disconnect b args h = AudioNode_disconnect (outputNode b) args h"
  by (auto simp: BypassNode_connect_def BypassNode_disconnect_def AudioNode_disconnect_def
      split: list.splits jsval.splits)

text \<open>A destination of the same context, a destination of another context, and a destination that is not connected.\<close>

theorem connect_delegates_to_output_witness:
  "BypassNode_connect demo_node [JNode 0] demo_host =
     (Inr (JNode 0), demo_host\<lparr>edges := (3, 0) # edges demo_host, calls := calls demo_host @ [Connect 3 0]\<rparr>) \<and>
   BypassNode_connect demo_node [JNode 4] (demo_host\<lparr>nodes := nodes demo_host @ [gnode 1 1]\<rparr>) =
     (Inl (InvalidAccessError ''cannot connect nodes of different contexts''),
      demo_host\<lparr>nodes := nodes demo_host @ [gnode 1 1]\<rparr>) \<and>
   BypassNode_disconnect demo_node [JNode 0] demo_host =
     (Inl (InvalidAccessError ''the given destination is not connected''), demo_host)"
  using connect_delegates_to_output[of demo_node "[JNode 0]" demo_host]
    connect_delegates_to_output[of demo_node "[JNode 4]" "demo_host\<lparr>nodes := nodes demo_host @ [gnode 1 1]\<rparr>"]
  by (simp add: AudioNode_connect_def AudioNode_disconnect_def node_at_def demo_node_def
      demo_host_def gnode_def List.insert_def)

end
